theory Spec2Isabelle
  imports Complex_Main
begin

section \<open>Python exceptions, tensors and the configuration\<close>

text \<open>
  The module \<^verbatim>\<open>modeling_whale.py\<close> composes torch tensor operations. Every
  \<^verbatim>\<open>raise\<close>, failed \<^verbatim>\<open>assert\<close> and failing library call is a value
  \<open>Inl e\<close> of a sum type; \<open>e\<close> names the Python exception class.
\<close>

datatype error =
    ValueError string
  | AssertionError
  | ZeroDivisionError
  | TypeError string
  | AttributeError string
  | UnboundLocalError string
  | NameError string
  | IndexError string
  | RuntimeError string

text \<open>
  A tensor is its shape and its entries, read by a multi-index. Only the entries whose
  index lies inside the shape are entries of the tensor. Floating-point entries are
  idealised as real numbers.
\<close>

record 'a tensor =
  shape :: "nat list"
  elem :: "nat list \<Rightarrow> 'a"

text \<open>
  Library modules whose arithmetic no statement below depends on (\<^verbatim>\<open>nn.LayerNorm\<close>,
  the \<^verbatim>\<open>nn.Sequential\<close> of the embedding, activation functions, \<^verbatim>\<open>nn.Dropout\<close>, the
  linear algebra of attention) are callables carried by the module that owns them. A call
  threads the state \<open>'g\<close> of the random generator, which dropout consumes in training mode.
\<close>

type_synonym ('g, 'r) call = "'g \<Rightarrow> error + ('r \<times> 'g)"

type_synonym 'g layer = "real tensor \<Rightarrow> ('g, real tensor) call"

type_synonym 'g dropout_fn = "'g \<Rightarrow> real tensor \<Rightarrow> real tensor \<times> 'g"

definition and_then :: "('g, 'a) call \<Rightarrow> ('a \<Rightarrow> ('g, 'b) call) \<Rightarrow> ('g, 'b) call" where
  "and_then m f = (\<lambda>g. case m g of Inl e \<Rightarrow> Inl e | Inr (a, g') \<Rightarrow> f a g')"

definition returns :: "'a \<Rightarrow> ('g, 'a) call" where
  "returns a = (\<lambda>g. Inr (a, g))"

definition raise :: "error \<Rightarrow> ('g, 'a) call" where
  "raise e = (\<lambda>g. Inl e)"

definition drop_call :: "'g dropout_fn \<Rightarrow> real tensor \<Rightarrow> ('g, real tensor) call" where
  "drop_call d x = (\<lambda>g. Inr (d g x))"

text \<open>
  \<^verbatim>\<open>WhaleConfig\<close> is declared in \<^verbatim>\<open>configuration_whale.py\<close>; the record has the
  fields this module reads.
\<close>

record WhaleConfig =
  num_channels :: int
  hidden_size :: int
  input_dim :: int
  dropout :: real
  max_position_embeddings :: int
  num_attention_heads :: int
  use_flash_attn :: bool
  attention_dropout :: real
  qk_normalization :: bool
  use_relative_pe :: bool
  normalize_before :: bool
  concat_after :: bool
  num_hidden_layers :: int
  output_hidden_states :: bool
  use_return_dict :: bool

section \<open>WhaleAttention\<close>

text \<open>Line 52: the import of the optimized kernel is commented out and the flag is constant.\<close>

definition has_flash_attn :: bool where
  "has_flash_attn = False"

text \<open>
  The arithmetic of \<^verbatim>\<open>_naive_attn\<close> (projections, softmax, masking with infinities) is
  the callable \<open>att_kernel\<close>, fixed by the weights the constructor allocates.
\<close>

type_synonym ('g, 'm) attn_kernel =
  "real tensor \<Rightarrow> 'm tensor option \<Rightarrow> real tensor option \<Rightarrow> ('g, real tensor) call"

record ('g, 'm) WhaleAttention =
  att_embed_dim :: int
  att_num_heads :: int
  att_use_flash_attn :: bool
  att_head_dim :: int
  att_qk_normalization :: bool
  att_use_relative_pe :: bool
  att_kernel :: "('g, 'm) attn_kernel"

definition flash_warning :: string where
  "flash_warning = ''Warning: Flash Attention is not available, use_flash_attn is set to False.''"

definition not_divisible :: error where
  "not_divisible = ValueError ''embed_dim must be divisible by num_heads''"

text \<open>
  \<^verbatim>\<open>WhaleAttention.__init__\<close>. The first component is what the constructor prints. The
  steps, in the order of the source: the floor division \<^verbatim>\<open>embed_dim // num_heads\<close>
  (division by zero raises), the divisibility check, \<^verbatim>\<open>head_dim ** -0.5\<close> (zero to a
  negative power raises), \<^verbatim>\<open>nn.Linear\<close> (a negative size raises), \<^verbatim>\<open>nn.Dropout\<close>
  (a probability outside [0, 1] raises), \<^verbatim>\<open>FlashAttention\<close> (a name that is not
  bound), and the bias parameters of shape (num_heads, head_dim).
\<close>

definition WhaleAttention_init ::
  "('g, 'm) attn_kernel \<Rightarrow> WhaleConfig \<Rightarrow> string list \<times> (error + ('g, 'm) WhaleAttention)" where
  "WhaleAttention_init K config =
    (let embed_dim = hidden_size config;
         num_heads = num_attention_heads config;
         use_flash = (use_flash_attn config \<and> has_flash_attn);
         printed = (if use_flash_attn config \<and> \<not> has_flash_attn then [flash_warning] else [])
     in (printed,
         if num_heads = 0 then Inl ZeroDivisionError
         else
           let head_dim = embed_dim div num_heads in
           if head_dim * num_heads \<noteq> embed_dim then Inl not_divisible
           else if head_dim = 0 then Inl ZeroDivisionError
           else if embed_dim < 0 then Inl (RuntimeError ''negative dimension'')
           else if attention_dropout config < 0 \<or> 1 < attention_dropout config
             then Inl (ValueError ''dropout probability has to be between 0 and 1'')
           else if use_flash then Inl (NameError ''FlashAttention'')
           else if use_relative_pe config \<and> (num_heads < 0 \<or> head_dim < 0)
             then Inl (RuntimeError ''negative dimension'')
           else Inr \<lparr> att_embed_dim = embed_dim, att_num_heads = num_heads,
                      att_use_flash_attn = use_flash, att_head_dim = head_dim,
                      att_qk_normalization = qk_normalization config,
                      att_use_relative_pe = use_relative_pe config,
                      att_kernel = K \<rparr>))"

definition naive_attn ::
  "('g, 'm) WhaleAttention \<Rightarrow> real tensor \<Rightarrow> 'm tensor option \<Rightarrow> real tensor option
    \<Rightarrow> ('g, real tensor) call" where
  "naive_attn self x attention_mask pos_embeds = att_kernel self x attention_mask pos_embeds"

text \<open>
  \<^verbatim>\<open>_flash_attn\<close> starts with \<^verbatim>\<open>self.qkv(x)\<close>; the constructor defines no attribute
  \<^verbatim>\<open>qkv\<close>, so the lookup raises.
\<close>

definition flash_attn :: "('g, 'm) WhaleAttention \<Rightarrow> real tensor \<Rightarrow> ('g, real tensor) call" where
  "flash_attn self x = raise (AttributeError ''qkv'')"

definition WhaleAttention_forward ::
  "('g, 'm) WhaleAttention \<Rightarrow> real tensor \<Rightarrow> 'm tensor option \<Rightarrow> real tensor option
    \<Rightarrow> ('g, real tensor) call" where
  "WhaleAttention_forward self hidden_states attention_mask pos_embeds =
    (if \<not> att_use_flash_attn self then naive_attn self hidden_states attention_mask pos_embeds
     else flash_attn self hidden_states)"

section \<open>Tensor operations\<close>

definition on_ok :: "error + 'a \<Rightarrow> ('a \<Rightarrow> error + 'b) \<Rightarrow> error + 'b" where
  "on_ok r f = (case r of Inl e \<Rightarrow> Inl e | Inr a \<Rightarrow> f a)"

definition lift :: "error + 'a \<Rightarrow> ('g, 'a) call" where
  "lift r = (\<lambda>g. case r of Inl e \<Rightarrow> Inl e | Inr a \<Rightarrow> Inr (a, g))"

text \<open>\<^verbatim>\<open>x.unsqueeze(k)\<close> for \<open>k\<close> at most the rank of \<open>x\<close>.\<close>

definition unsqueeze :: "nat \<Rightarrow> 'a tensor \<Rightarrow> 'a tensor" where
  "unsqueeze k x =
    \<lparr> shape = take k (shape x) @ [1] @ drop k (shape x),
      elem = (\<lambda>idx. elem x (take k idx @ drop (Suc k) idx)) \<rparr>"

text \<open>The number of indices \<open>start, start + step, ...\<close> below \<open>n\<close>.\<close>

definition slice_len :: "nat \<Rightarrow> nat \<Rightarrow> nat \<Rightarrow> nat" where
  "slice_len start step n = (n - start + step - 1) div step"

text \<open>
  \<^verbatim>\<open>x[:, start::step]\<close>: two subscripts, so a tensor of rank below 2 raises; the slice
  is taken along axis 1 whatever the rank.
\<close>

definition slice_from_step :: "nat \<Rightarrow> nat \<Rightarrow> 'a tensor \<Rightarrow> error + 'a tensor" where
  "slice_from_step start step x =
    (if length (shape x) < 2 then Inl (IndexError ''too many indices for tensor'')
     else Inr \<lparr> shape = (shape x)[1 := slice_len start step (shape x ! 1)],
                elem = (\<lambda>idx. elem x (idx[1 := start + step * (idx ! 1)])) \<rparr>)"

text \<open>
  A Python slice bound on an axis of length \<open>n\<close>: a negative bound counts from the end,
  and every bound is clamped to \<open>0 .. n\<close>.
\<close>

definition py_bound :: "int \<Rightarrow> nat \<Rightarrow> nat" where
  "py_bound i n = (if i < 0 then nat (max 0 (i + int n)) else min (nat i) n)"

text \<open>\<^verbatim>\<open>x[:, lo:hi]\<close> on a tensor of rank at least 2.\<close>

definition py_slice1 :: "int \<Rightarrow> int \<Rightarrow> 'a tensor \<Rightarrow> 'a tensor" where
  "py_slice1 lo hi x =
    (let n = shape x ! 1; a = py_bound lo n; b = py_bound hi n
     in \<lparr> shape = (shape x)[1 := b - a],
          elem = (\<lambda>idx. elem x (idx[1 := a + idx ! 1])) \<rparr>)"

text \<open>\<^verbatim>\<open>x * c\<close> for a Python float \<open>c\<close>.\<close>

definition scale_tensor :: "real \<Rightarrow> real tensor \<Rightarrow> real tensor" where
  "scale_tensor c x = \<lparr> shape = shape x, elem = (\<lambda>idx. elem x idx * c) \<rparr>"

text \<open>
  Broadcasting, on the shapes read from the last axis: two sizes are compatible when they
  are equal or one of them is 1; a missing axis counts as 1.
\<close>

fun broadcast_dims :: "nat list \<Rightarrow> nat list \<Rightarrow> nat list option" where
  "broadcast_dims [] ys = Some ys"
| "broadcast_dims (x # xs) [] = Some (x # xs)"
| "broadcast_dims (x # xs) (y # ys) =
     (if x = y then map_option ((#) x) (broadcast_dims xs ys)
      else if y = 1 then map_option ((#) x) (broadcast_dims xs ys)
      else if x = 1 then map_option ((#) y) (broadcast_dims xs ys)
      else None)"

definition broadcast_shape :: "nat list \<Rightarrow> nat list \<Rightarrow> nat list option" where
  "broadcast_shape a b = map_option rev (broadcast_dims (rev a) (rev b))"

text \<open>The index an operand of shape \<open>s\<close> is read at, for the index \<open>idx\<close> of the result.\<close>

definition bc_index :: "nat list \<Rightarrow> nat list \<Rightarrow> nat list" where
  "bc_index s idx = map2 (\<lambda>n i. if n = 1 then 0 else i) s (drop (length idx - length s) idx)"

definition tensor_add :: "real tensor \<Rightarrow> real tensor \<Rightarrow> error + real tensor" where
  "tensor_add a b =
    (case broadcast_shape (shape a) (shape b) of
       None \<Rightarrow> Inl (RuntimeError ''The size of tensor a must match the size of tensor b'')
     | Some s \<Rightarrow>
         Inr \<lparr> shape = s,
               elem = (\<lambda>idx. elem a (bc_index (shape a) idx) + elem b (bc_index (shape b) idx)) \<rparr>)"

text \<open>\<^verbatim>\<open>torch.cat([a, b], dim=-1)\<close>.\<close>

definition cat_last :: "real tensor \<Rightarrow> real tensor \<Rightarrow> error + real tensor" where
  "cat_last a b =
    (if shape a = [] then Inl (RuntimeError ''zero-dimensional tensor cannot be concatenated'')
     else if shape b = [] then Inl (RuntimeError ''zero-dimensional tensor cannot be concatenated'')
     else if butlast (shape a) = butlast (shape b) then
       Inr \<lparr> shape = butlast (shape a) @ [last (shape a) + last (shape b)],
             elem = (\<lambda>idx. if last idx < last (shape a) then elem a idx
                            else elem b (butlast idx @ [last idx - last (shape a)])) \<rparr>
     else Inl (RuntimeError ''Sizes of tensors must match except in dimension''))"

text \<open>
  \<^verbatim>\<open>x[:, 0, :]\<close>: three subscripts, so a rank below 3 raises, and so does an axis 1 of
  length 0.
\<close>

definition select_first :: "'a tensor \<Rightarrow> error + 'a tensor" where
  "select_first x =
    (if length (shape x) < 3 then Inl (IndexError ''too many indices for tensor'')
     else if shape x ! 1 = 0 then Inl (IndexError ''index 0 is out of bounds for dimension 1 with size 0'')
     else Inr \<lparr> shape = take 1 (shape x) @ drop 2 (shape x),
                elem = (\<lambda>idx. elem x (take 1 idx @ [0] @ drop 1 idx)) \<rparr>)"

section \<open>WhaleConv2dSubsampling4\<close>

text \<open>
  \<^verbatim>\<open>nn.Conv2d(in_channels, out_channels, kernel_size=3, stride=2)\<close>, without padding: the
  entry at \<open>(b, co, i, j)\<close> is the bias plus the sum over the input channels and the 3 by 3
  window at \<open>(2 i, 2 j)\<close>. An axis of length \<open>n\<close> shrinks to \<open>(n - 3) div 2 + 1\<close>; an
  axis shorter than the kernel raises. A rank-3 input is an unbatched image.
\<close>

record Conv2d =
  conv_in_channels :: nat
  conv_out_channels :: nat
  conv_weight :: "nat \<Rightarrow> nat \<Rightarrow> nat \<Rightarrow> nat \<Rightarrow> real"
  conv_bias :: "nat \<Rightarrow> real"

definition conv_out_len :: "nat \<Rightarrow> nat" where
  "conv_out_len n = (n - 3) div 2 + 1"

definition conv_entry :: "Conv2d \<Rightarrow> (nat \<Rightarrow> nat \<Rightarrow> nat \<Rightarrow> real) \<Rightarrow> nat \<Rightarrow> nat \<Rightarrow> nat \<Rightarrow> real" where
  "conv_entry c img co i j =
     conv_bias c co +
     (\<Sum>ci<conv_in_channels c. \<Sum>di<3. \<Sum>dj<3.
        conv_weight c co ci di dj * img ci (2 * i + di) (2 * j + dj))"

definition Conv2d_forward :: "Conv2d \<Rightarrow> real tensor \<Rightarrow> error + real tensor" where
  "Conv2d_forward c x =
    (let s = shape x; r = length s in
     if r = 4 then
       (if s ! 1 = conv_in_channels c then
          (if s ! 2 < 3 then Inl (RuntimeError ''Kernel size cannot be greater than actual input size'')
           else if s ! 3 < 3 then Inl (RuntimeError ''Kernel size cannot be greater than actual input size'')
           else Inr \<lparr> shape = [s ! 0, conv_out_channels c, conv_out_len (s ! 2), conv_out_len (s ! 3)],
                      elem = (\<lambda>idx. conv_entry c (\<lambda>ci y z. elem x [idx ! 0, ci, y, z])
                                       (idx ! 1) (idx ! 2) (idx ! 3)) \<rparr>)
        else Inl (RuntimeError ''expected input to have in_channels channels''))
     else if r = 3 then
       (if s ! 0 = conv_in_channels c then
          (if s ! 1 < 3 then Inl (RuntimeError ''Kernel size cannot be greater than actual input size'')
           else if s ! 2 < 3 then Inl (RuntimeError ''Kernel size cannot be greater than actual input size'')
           else Inr \<lparr> shape = [conv_out_channels c, conv_out_len (s ! 1), conv_out_len (s ! 2)],
                      elem = (\<lambda>idx. conv_entry c (\<lambda>ci y z. elem x [ci, y, z])
                                       (idx ! 0) (idx ! 1) (idx ! 2)) \<rparr>)
        else Inl (RuntimeError ''expected input to have in_channels channels''))
     else Inl (RuntimeError ''Expected 3D (unbatched) or 4D (batched) input to conv2d''))"

definition relu :: "real tensor \<Rightarrow> real tensor" where
  "relu x = \<lparr> shape = shape x, elem = (\<lambda>idx. max 0 (elem x idx)) \<rparr>"

text \<open>\<^verbatim>\<open>nn.Linear\<close>: \<open>y = x W\<^sup>T + b\<close> along the last axis.\<close>

record Linear =
  lin_in_features :: nat
  lin_out_features :: nat
  lin_weight :: "nat \<Rightarrow> nat \<Rightarrow> real"
  lin_bias :: "nat \<Rightarrow> real"

definition Linear_forward :: "Linear \<Rightarrow> real tensor \<Rightarrow> error + real tensor" where
  "Linear_forward l x =
    (if shape x = [] then Inl (RuntimeError ''both arguments to matmul need to be at least 1D'')
     else if last (shape x) = lin_in_features l then
       Inr \<lparr> shape = butlast (shape x) @ [lin_out_features l],
             elem = (\<lambda>idx. lin_bias l (last idx) +
                      (\<Sum>k<lin_in_features l. elem x (butlast idx @ [k]) * lin_weight l (last idx) k)) \<rparr>
     else Inl (RuntimeError ''mat1 and mat2 shapes cannot be multiplied''))"

text \<open>\<^verbatim>\<open>x.transpose(1, 2).contiguous().view(b, t, c * f)\<close> for \<open>x\<close> of shape (b, c, t, f).\<close>

definition merge_channels :: "real tensor \<Rightarrow> nat \<Rightarrow> nat \<Rightarrow> nat \<Rightarrow> nat \<Rightarrow> real tensor" where
  "merge_channels x b c t f =
    \<lparr> shape = [b, t, c * f],
      elem = (\<lambda>idx. elem x [idx ! 0, (idx ! 2) div f, idx ! 1, (idx ! 2) mod f]) \<rparr>"

record WhaleConv2dSubsampling4 =
  sub_in_channels :: int
  sub_hidden_size :: int
  sub_input_dim :: int
  conv1 :: Conv2d
  conv2 :: Conv2d
  out :: Linear
  sub_intermediate_size :: int
  subsampling_rate :: nat
  right_context :: nat

text \<open>The values the library draws for the weights at construction.\<close>

record subsampling_weights =
  w_conv1 :: "nat \<Rightarrow> nat \<Rightarrow> nat \<Rightarrow> nat \<Rightarrow> real"
  b_conv1 :: "nat \<Rightarrow> real"
  w_conv2 :: "nat \<Rightarrow> nat \<Rightarrow> nat \<Rightarrow> nat \<Rightarrow> real"
  b_conv2 :: "nat \<Rightarrow> real"
  w_out :: "nat \<Rightarrow> nat \<Rightarrow> real"
  b_out :: "nat \<Rightarrow> real"

definition WhaleConv2dSubsampling4_init ::
  "subsampling_weights \<Rightarrow> WhaleConfig \<Rightarrow> error + WhaleConv2dSubsampling4" where
  "WhaleConv2dSubsampling4_init W config =
    (let in_channels = num_channels config;
         hidden = hidden_size config;
         idim = input_dim config;
         intermediate_size = hidden * (((idim - 1) div 2 - 1) div 2)
     in if in_channels < 0 then Inl (RuntimeError ''negative dimension'')
        else if hidden < 0 then Inl (RuntimeError ''negative dimension'')
        else if intermediate_size < 0 then Inl (RuntimeError ''negative dimension'')
        else Inr \<lparr> sub_in_channels = in_channels, sub_hidden_size = hidden, sub_input_dim = idim,
                   conv1 = \<lparr> conv_in_channels = nat in_channels, conv_out_channels = nat hidden,
                             conv_weight = w_conv1 W, conv_bias = b_conv1 W \<rparr>,
                   conv2 = \<lparr> conv_in_channels = nat hidden, conv_out_channels = nat hidden,
                             conv_weight = w_conv2 W, conv_bias = b_conv2 W \<rparr>,
                   out = \<lparr> lin_in_features = nat intermediate_size, lin_out_features = nat hidden,
                           lin_weight = w_out W, lin_bias = b_out W \<rparr>,
                   sub_intermediate_size = intermediate_size,
                   subsampling_rate = 4, right_context = 6 \<rparr>)"

text \<open>\<^verbatim>\<open>self.conv_in\<close>: convolution, ReLU, convolution, ReLU.\<close>

definition conv_in :: "WhaleConv2dSubsampling4 \<Rightarrow> real tensor \<Rightarrow> error + real tensor" where
  "conv_in self x =
    on_ok (Conv2d_forward (conv1 self) x) (\<lambda>y1.
    on_ok (Conv2d_forward (conv2 self) (relu y1)) (\<lambda>y2. Inr (relu y2)))"

text \<open>\<^verbatim>\<open>x_mask[:, 2::2][:, 2::2]\<close>; subscripting \<^verbatim>\<open>None\<close> raises.\<close>

definition subsample_mask :: "'m tensor option \<Rightarrow> error + 'm tensor" where
  "subsample_mask x_mask =
    (case x_mask of
       None \<Rightarrow> Inl (TypeError ''NoneType object is not subscriptable'')
     | Some m \<Rightarrow> on_ok (slice_from_step 2 2 m) (slice_from_step 2 2))"

text \<open>
  \<^verbatim>\<open>WhaleConv2dSubsampling4.forward\<close>. \<^verbatim>\<open>unsqueeze(1)\<close> raises on a tensor of rank 0;
  \<^verbatim>\<open>b, c, t, f = x.size()\<close> raises unless the convolutions return rank 4.
\<close>

definition WhaleConv2dSubsampling4_forward ::
  "WhaleConv2dSubsampling4 \<Rightarrow> real tensor \<Rightarrow> 'm tensor option \<Rightarrow> error + (real tensor \<times> 'm tensor)" where
  "WhaleConv2dSubsampling4_forward self x x_mask =
    (if shape x = [] then Inl (IndexError ''Dimension out of range'')
     else
       on_ok (conv_in self (unsqueeze 1 x)) (\<lambda>y.
         if length (shape y) = 4 then
           (let b = shape y ! 0; c = shape y ! 1; t = shape y ! 2; f = shape y ! 3 in
            on_ok (Linear_forward (out self) (merge_channels y b c t f)) (\<lambda>z.
            on_ok (subsample_mask x_mask) (\<lambda>m. Inr (z, m))))
         else Inl (ValueError ''not enough values to unpack (expected 4)'')))"

section \<open>WhalePositionalEncoding and RelPositionalEncoding\<close>

text \<open>
  Entry \<open>k\<close> of \<^verbatim>\<open>div_term\<close>:
  \<^verbatim>\<open>exp(arange(0, d_model, 2)[k] * -(math.log(10000.0) / d_model))\<close>.
\<close>

definition div_term :: "int \<Rightarrow> nat \<Rightarrow> real" where
  "div_term d k = exp (real (2 * k) * - (ln 10000 / real_of_int d))"

text \<open>
  The table after \<^verbatim>\<open>self.pe[:, 0::2] = sin(position * div_term)\<close>,
  \<^verbatim>\<open>self.pe[:, 1::2] = cos(position * div_term)\<close> and \<^verbatim>\<open>unsqueeze(0)\<close>: column \<open>j\<close>
  takes entry \<open>j div 2\<close> of the right-hand side, the sine for even \<open>j\<close> and the cosine
  for odd \<open>j\<close>.
\<close>

definition pe_table :: "int \<Rightarrow> int \<Rightarrow> real tensor" where
  "pe_table max_len d =
    \<lparr> shape = [1, nat max_len, nat d],
      elem = (\<lambda>idx. if even (idx ! 2)
                     then sin (real (idx ! 1) * div_term d ((idx ! 2) div 2))
                     else cos (real (idx ! 1) * div_term d ((idx ! 2) div 2))) \<rparr>"

record 'g WhalePositionalEncoding =
  d_model :: int
  xscale :: real
  pe_dropout :: "'g dropout_fn"
  max_len :: int
  pe :: "real tensor"

text \<open>
  \<^verbatim>\<open>WhalePositionalEncoding.__init__\<close>, with \<^verbatim>\<open>torch.nn.Dropout\<close> as \<open>nn_Dropout\<close>.
  In the order of the source: \<^verbatim>\<open>math.sqrt\<close> raises on a negative number,
  \<^verbatim>\<open>nn.Dropout\<close> on a probability outside [0, 1], \<^verbatim>\<open>torch.zeros\<close> on a negative
  size, the division \<^verbatim>\<open>math.log(10000.0) / d_model\<close> on zero. The cosine assignment
  writes \<open>(d + 1) div 2\<close> columns into \<open>d div 2\<close> columns: the sizes agree for even \<open>d\<close>,
  broadcast for \<open>d = 1\<close> (one column into none), and mismatch for every other odd \<open>d\<close>.
\<close>

definition WhalePositionalEncoding_init ::
  "(real \<Rightarrow> 'g dropout_fn) \<Rightarrow> WhaleConfig \<Rightarrow> error + 'g WhalePositionalEncoding" where
  "WhalePositionalEncoding_init nn_Dropout config =
    (let d = hidden_size config; n = max_position_embeddings config in
     if d < 0 then Inl (ValueError ''math domain error'')
     else if dropout config < 0 then Inl (ValueError ''dropout probability has to be between 0 and 1'')
     else if 1 < dropout config then Inl (ValueError ''dropout probability has to be between 0 and 1'')
     else if n < 0 then Inl (RuntimeError ''negative dimension'')
     else if d = 0 then Inl ZeroDivisionError
     else if odd d \<and> 1 < d then Inl (RuntimeError ''shape mismatch'')
     else Inr \<lparr> d_model = d, xscale = sqrt (real_of_int d),
                pe_dropout = nn_Dropout (dropout config), max_len = n,
                pe = pe_table n d \<rparr>)"

text \<open>
  \<^verbatim>\<open>WhalePositionalEncoding.forward\<close>; \<^verbatim>\<open>x.size(1)\<close> raises on a rank below 2.
\<close>

definition WhalePositionalEncoding_forward ::
  "('g, 'z) WhalePositionalEncoding_scheme \<Rightarrow> real tensor \<Rightarrow> int
    \<Rightarrow> ('g, real tensor \<times> real tensor) call" where
  "WhalePositionalEncoding_forward self x offset =
    (if length (shape x) < 2 then raise (IndexError ''Dimension out of range'')
     else if offset + int (shape x ! 1) < max_len self then
       (let pos_emb = py_slice1 offset (offset + int (shape x ! 1)) (pe self) in
        and_then (lift (tensor_add (scale_tensor (xscale self) x) pos_emb)) (\<lambda>x'.
        and_then (drop_call (pe_dropout self) x') (\<lambda>a.
        and_then (drop_call (pe_dropout self) pos_emb) (\<lambda>b. returns (a, b)))))
     else raise AssertionError)"

definition position_encoding ::
  "('g, 'z) WhalePositionalEncoding_scheme \<Rightarrow> int \<Rightarrow> int \<Rightarrow> ('g, real tensor) call" where
  "position_encoding self offset sz =
    (if offset + sz < max_len self
     then drop_call (pe_dropout self) (py_slice1 offset (offset + sz) (pe self))
     else raise AssertionError)"

record 'g RelPositionalEncoding = "'g WhalePositionalEncoding" +
  rel_hidden_size :: int
  rel_div_term :: "real tensor"
  max_length :: int

definition RelPositionalEncoding_init ::
  "(real \<Rightarrow> 'g dropout_fn) \<Rightarrow> WhaleConfig \<Rightarrow> error + 'g RelPositionalEncoding" where
  "RelPositionalEncoding_init nn_Dropout config =
    on_ok (WhalePositionalEncoding_init nn_Dropout config) (\<lambda>base.
      Inr (WhalePositionalEncoding.extend base
        (RelPositionalEncoding.fields (hidden_size config)
           \<lparr> shape = [nat ((hidden_size config + 1) div 2)],
             elem = (\<lambda>idx. div_term (hidden_size config) (idx ! 0)) \<rparr>
           (max_position_embeddings config))))"

text \<open>\<^verbatim>\<open>RelPositionalEncoding.forward\<close>: no assertion, no addition.\<close>

definition RelPositionalEncoding_forward ::
  "'g RelPositionalEncoding \<Rightarrow> real tensor \<Rightarrow> int \<Rightarrow> ('g, real tensor \<times> real tensor) call" where
  "RelPositionalEncoding_forward self x offset =
    (let x' = scale_tensor (xscale self) x in
     if length (shape x') < 2 then raise (IndexError ''Dimension out of range'')
     else
       (let pos_emb = py_slice1 offset (offset + int (shape x' ! 1)) (pe self) in
        and_then (drop_call (pe_dropout self) x') (\<lambda>a.
        and_then (drop_call (pe_dropout self) pos_emb) (\<lambda>b. returns (a, b)))))"

section \<open>WhaleAudioEmbeddings, WhaleMLP, WhaleAudioEncoderLayer, WhaleAudioEncoder\<close>

record 'g WhaleAudioEmbeddings =
  embedding :: "'g layer"
  positional_embedding :: "'g RelPositionalEncoding"

definition WhaleAudioEmbeddings_forward ::
  "'g WhaleAudioEmbeddings \<Rightarrow> real tensor \<Rightarrow> ('g, real tensor \<times> real tensor) call" where
  "WhaleAudioEmbeddings_forward self input_features =
    and_then (embedding self input_features) (\<lambda>hidden_states.
      RelPositionalEncoding_forward (positional_embedding self) hidden_states 0)"

record 'g WhaleMLP =
  act :: "'g layer"
  w_1 :: "'g layer"
  w_2 :: "'g layer"
  mlp_dropout :: "'g dropout_fn"

definition WhaleMLP_forward :: "'g WhaleMLP \<Rightarrow> real tensor \<Rightarrow> ('g, real tensor) call" where
  "WhaleMLP_forward self hidden_states =
    and_then (w_1 self hidden_states) (\<lambda>h1.
    and_then (act self h1) (\<lambda>h2.
    and_then (drop_call (mlp_dropout self) h2) (\<lambda>h3.
    w_2 self h3)))"

record ('g, 'm) WhaleAudioEncoderLayer =
  lay_normalize_before :: bool
  lay_concat_after :: bool
  attn :: "('g, 'm) WhaleAttention"
  feed_forward :: "'g WhaleMLP"
  norm1 :: "'g layer"
  norm2 :: "'g layer"
  lay_dropout :: "'g dropout_fn"
  concat_linear :: "'g layer"

definition WhaleAudioEncoderLayer_forward ::
  "('g, 'm) WhaleAudioEncoderLayer \<Rightarrow> real tensor \<Rightarrow> 'm tensor option \<Rightarrow> real tensor option
    \<Rightarrow> ('g, real tensor) call" where
  "WhaleAudioEncoderLayer_forward self hidden_states attention_mask pos_emb =
    (let residual = hidden_states in
     and_then (if lay_normalize_before self then norm1 self hidden_states
               else returns hidden_states) (\<lambda>h1.
     and_then
       (if lay_concat_after self then
          and_then (WhaleAttention_forward (attn self) h1 attention_mask pos_emb) (\<lambda>a.
          and_then (lift (cat_last h1 a)) (\<lambda>c.
          and_then (concat_linear self c) (\<lambda>l. lift (tensor_add l residual))))
        else
          and_then (WhaleAttention_forward (attn self) h1 attention_mask pos_emb) (\<lambda>a.
          and_then (drop_call (lay_dropout self) a) (\<lambda>d. lift (tensor_add d residual)))) (\<lambda>h2.
     and_then (if \<not> lay_normalize_before self then norm1 self h2 else returns h2) (\<lambda>h3.
     (let residual2 = h3 in
      and_then (if lay_normalize_before self then norm2 self h3 else returns h3) (\<lambda>h4.
      and_then (WhaleMLP_forward (feed_forward self) h4) (\<lambda>f.
      and_then (drop_call (lay_dropout self) f) (\<lambda>d.
      and_then (lift (tensor_add d residual2)) (\<lambda>h5.
      if \<not> lay_normalize_before self then norm2 self h5 else returns h5)))))))))"

record ('g, 'm) WhaleAudioEncoder =
  enc_config :: WhaleConfig
  layers :: "('g, 'm) WhaleAudioEncoderLayer list"
  gradient_checkpointing :: bool
  training :: bool
  enc_normalize_before :: bool
  layer_norm :: "'g layer"

text \<open>The encoder returns a tuple or a \<^verbatim>\<open>BaseModelOutput\<close>.\<close>

datatype encoder_outputs =
    EncTuple "real tensor" "real tensor list option"
  | BaseModelOutput "real tensor" "real tensor list option"

text \<open>\<^verbatim>\<open>torch.utils.checkpoint.checkpoint(f, ...)\<close> returns what \<open>f\<close> returns.\<close>

definition checkpoint :: "'a \<Rightarrow> 'a" where
  "checkpoint f = f"

text \<open>The loop over \<^verbatim>\<open>self.layers\<close>; \<open>states\<close> is \<^verbatim>\<open>encoder_states\<close>.\<close>

fun run_layers ::
  "bool \<Rightarrow> bool \<Rightarrow> ('g, 'm) WhaleAudioEncoderLayer list \<Rightarrow> 'm tensor option \<Rightarrow> real tensor option
    \<Rightarrow> real tensor \<times> real tensor list \<Rightarrow> ('g, real tensor \<times> real tensor list) call" where
  "run_layers ohs ckpt [] attention_mask pos_embeds (h, states) = returns (h, states)"
| "run_layers ohs ckpt (encoder_layer # rest) attention_mask pos_embeds (h, states) =
     (let states' = (if ohs then states @ [h] else states) in
      and_then
        (if ckpt then checkpoint (WhaleAudioEncoderLayer_forward encoder_layer) h attention_mask pos_embeds
         else WhaleAudioEncoderLayer_forward encoder_layer h attention_mask pos_embeds) (\<lambda>layer_outputs.
        run_layers ohs ckpt rest attention_mask pos_embeds (layer_outputs, states')))"

definition WhaleAudioEncoder_forward ::
  "('g, 'm) WhaleAudioEncoder \<Rightarrow> real tensor \<Rightarrow> 'm tensor option \<Rightarrow> real tensor option
    \<Rightarrow> bool option \<Rightarrow> bool option \<Rightarrow> ('g, encoder_outputs) call" where
  "WhaleAudioEncoder_forward self inputs_embeds attention_mask pos_embeds ohs_arg return_dict_arg =
    (let ohs = (case ohs_arg of Some b \<Rightarrow> b | None \<Rightarrow> output_hidden_states (enc_config self));
         return_dict = (case return_dict_arg of Some b \<Rightarrow> b | None \<Rightarrow> use_return_dict (enc_config self))
     in
     and_then (run_layers ohs (gradient_checkpointing self \<and> training self) (layers self)
                 attention_mask pos_embeds (inputs_embeds, [])) (\<lambda>(h, states).
     and_then (if enc_normalize_before self then layer_norm self h else returns h) (\<lambda>hidden_states.
       (let encoder_states = (if ohs then Some (states @ [hidden_states]) else None) in
        if \<not> return_dict then returns (EncTuple hidden_states encoder_states)
        else returns (BaseModelOutput hidden_states encoder_states)))))"

section \<open>WhaleAudioModel\<close>

record ('g, 'm) WhaleAudioModel =
  config :: WhaleConfig
  subsampling :: WhaleConv2dSubsampling4
  embeddings :: "'g WhaleAudioEmbeddings"
  encoder :: "('g, 'm) WhaleAudioEncoder"

datatype model_outputs =
    ModelTuple "real tensor" "real tensor" "real tensor list option"
  | BaseModelOutputWithPooling
      (last_hidden_state: "real tensor")
      (pooler_output: "real tensor")
      (hidden_states: "real tensor list option")
      (attentions: "real tensor list option")

definition specify_inputs :: error where
  "specify_inputs = ValueError ''You have to specify pixel_values or pixel_embeds''"

definition wrong_size :: error where
  "wrong_size = ValueError ''wrong pixel_values size''"

text \<open>
  Lines 543 to 550: the local variables \<^verbatim>\<open>hidden_states\<close>, \<^verbatim>\<open>attention_mask\<close> and
  \<^verbatim>\<open>pos_embeds\<close> after the branch. Only the raw-feature branch assigns
  \<^verbatim>\<open>pos_embeds\<close>; \<open>None\<close> in the third component is the unbound variable.
\<close>

definition route_inputs ::
  "('g, 'm) WhaleAudioModel \<Rightarrow> real tensor option \<Rightarrow> 'm tensor option \<Rightarrow> real tensor option
    \<Rightarrow> ('g, real tensor \<times> 'm tensor option \<times> real tensor option) call" where
  "route_inputs self input_features attention_mask pixel_embeds =
    (case pixel_embeds of
       Some e \<Rightarrow> returns (e, attention_mask, None)
     | None \<Rightarrow>
        (case input_features of
           None \<Rightarrow> raise (AttributeError ''shape'')
         | Some x \<Rightarrow>
            if length (shape x) = 3 then
              and_then (lift (WhaleConv2dSubsampling4_forward (subsampling self) x attention_mask))
                (\<lambda>(features, mask).
              and_then (WhaleAudioEmbeddings_forward (embeddings self) features)
                (\<lambda>(hidden, pos). returns (hidden, Some mask, Some pos)))
            else raise wrong_size))"

text \<open>
  Lines 535 to 557: the value of \<^verbatim>\<open>encoder_outputs\<close>. Reading the unbound
  \<^verbatim>\<open>pos_embeds\<close> for the keyword argument raises before the encoder is called.
\<close>

definition encode ::
  "('g, 'm) WhaleAudioModel \<Rightarrow> real tensor option \<Rightarrow> 'm tensor option \<Rightarrow> bool option \<Rightarrow> bool option
    \<Rightarrow> real tensor option \<Rightarrow> ('g, encoder_outputs) call" where
  "encode self input_features attention_mask ohs_arg return_dict_arg pixel_embeds =
    (let ohs = (case ohs_arg of Some b \<Rightarrow> b | None \<Rightarrow> output_hidden_states (config self));
         return_dict = (case return_dict_arg of Some b \<Rightarrow> b | None \<Rightarrow> use_return_dict (config self))
     in
     if input_features = None \<and> pixel_embeds = None then raise specify_inputs
     else
       and_then (route_inputs self input_features attention_mask pixel_embeds)
         (\<lambda>(hidden, mask, pos_var).
            case pos_var of
              None \<Rightarrow> raise (UnboundLocalError ''pos_embeds'')
            | Some pos \<Rightarrow>
                WhaleAudioEncoder_forward (encoder self) hidden mask (Some pos)
                  (Some ohs) (Some return_dict)))"

text \<open>
  \<^verbatim>\<open>WhaleAudioModel.forward\<close>. A tuple has no attribute \<^verbatim>\<open>last_hidden_state\<close>;
  \<^verbatim>\<open>encoder_outputs.attentions\<close> of a \<^verbatim>\<open>BaseModelOutput\<close> built without it is
  \<^verbatim>\<open>None\<close>.
\<close>

definition WhaleAudioModel_forward ::
  "('g, 'm) WhaleAudioModel \<Rightarrow> real tensor option \<Rightarrow> 'm tensor option \<Rightarrow> bool option \<Rightarrow> bool option
    \<Rightarrow> real tensor option \<Rightarrow> ('g, model_outputs) call" where
  "WhaleAudioModel_forward self input_features attention_mask ohs_arg return_dict_arg pixel_embeds =
    (let return_dict = (case return_dict_arg of Some b \<Rightarrow> b | None \<Rightarrow> use_return_dict (config self))
     in
     and_then (encode self input_features attention_mask ohs_arg return_dict_arg pixel_embeds)
       (\<lambda>encoder_outputs.
          case encoder_outputs of
            EncTuple h states \<Rightarrow> raise (AttributeError ''last_hidden_state'')
          | BaseModelOutput h states \<Rightarrow>
              and_then (lift (select_first h)) (\<lambda>pooled_output.
                if \<not> return_dict then returns (ModelTuple h pooled_output states)
                else returns (BaseModelOutputWithPooling h pooled_output states None))))"

section \<open>Concrete objects\<close>

text \<open>
  A small configuration, modules built from it and inputs, on which the functions above are
  evaluated: one channel, hidden size 2, seven feature bins, one head, no encoder layer,
  dropout in evaluation mode (the identity) and a generator without state.
\<close>

definition small_config :: WhaleConfig where
  "small_config =
    \<lparr> num_channels = 1, hidden_size = 2, input_dim = 7, dropout = 0,
      max_position_embeddings = 10, num_attention_heads = 1, use_flash_attn = False,
      attention_dropout = 0, qk_normalization = False, use_relative_pe = True,
      normalize_before = False, concat_after = False, num_hidden_layers = 0,
      output_hidden_states = False, use_return_dict = True \<rparr>"

definition eval_dropout :: "real \<Rightarrow> unit dropout_fn" where
  "eval_dropout p = (\<lambda>g x. (x, g))"

definition identity_kernel :: "(unit, bool) attn_kernel" where
  "identity_kernel = (\<lambda>x attention_mask pos_embeds. returns x)"

definition identity_layer :: "unit layer" where
  "identity_layer = (\<lambda>x. returns x)"

definition zero_weights :: subsampling_weights where
  "zero_weights =
    \<lparr> w_conv1 = (\<lambda>co ci di dj. 0), b_conv1 = (\<lambda>co. 0),
      w_conv2 = (\<lambda>co ci di dj. 0), b_conv2 = (\<lambda>co. 0),
      w_out = (\<lambda>j k. 0), b_out = (\<lambda>j. 0) \<rparr>"

definition small_subsampling :: WhaleConv2dSubsampling4 where
  "small_subsampling =
    \<lparr> sub_in_channels = 1, sub_hidden_size = 2, sub_input_dim = 7,
      conv1 = \<lparr> conv_in_channels = 1, conv_out_channels = 2,
                conv_weight = w_conv1 zero_weights, conv_bias = b_conv1 zero_weights \<rparr>,
      conv2 = \<lparr> conv_in_channels = 2, conv_out_channels = 2,
                conv_weight = w_conv2 zero_weights, conv_bias = b_conv2 zero_weights \<rparr>,
      out = \<lparr> lin_in_features = 2, lin_out_features = 2,
              lin_weight = w_out zero_weights, lin_bias = b_out zero_weights \<rparr>,
      sub_intermediate_size = 2, subsampling_rate = 4, right_context = 6 \<rparr>"

definition small_rel_pe :: "unit RelPositionalEncoding" where
  "small_rel_pe =
    \<lparr> d_model = 2, xscale = sqrt 2, pe_dropout = eval_dropout 0, max_len = 10,
      pe = pe_table 10 2, rel_hidden_size = 2,
      rel_div_term = \<lparr> shape = [1], elem = (\<lambda>idx. div_term 2 (idx ! 0)) \<rparr>,
      max_length = 10 \<rparr>"

definition small_model :: "(unit, bool) WhaleAudioModel" where
  "small_model =
    \<lparr> config = small_config,
      subsampling = small_subsampling,
      embeddings = \<lparr> embedding = identity_layer, positional_embedding = small_rel_pe \<rparr>,
      encoder = \<lparr> enc_config = small_config, layers = [], gradient_checkpointing = True,
                  training = False, enc_normalize_before = False, layer_norm = identity_layer \<rparr> \<rparr>"

text \<open>Features of shape (1, T, 7) and masks of shape (1, T) and (1, 1, T).\<close>

definition features :: "nat \<Rightarrow> real tensor" where
  "features T = \<lparr> shape = [1, T, 7], elem = (\<lambda>idx. 0) \<rparr>"

definition mask2 :: "nat \<Rightarrow> bool tensor" where
  "mask2 T = \<lparr> shape = [1, T], elem = (\<lambda>idx. True) \<rparr>"

definition mask3 :: "nat \<Rightarrow> bool tensor" where
  "mask3 T = \<lparr> shape = [1, 1, T], elem = (\<lambda>idx. True) \<rparr>"

text \<open>Features of rank 2, shape (7, 7).\<close>

definition flat_features :: "real tensor" where
  "flat_features = \<lparr> shape = [7, 7], elem = (\<lambda>idx. 0) \<rparr>"

text \<open>Hidden states of shape (1, T, 2).\<close>

definition hidden_input :: "nat \<Rightarrow> real tensor" where
  "hidden_input T = \<lparr> shape = [1, T, 2], elem = (\<lambda>idx. 1) \<rparr>"

text \<open>The shapes of what a call returns, for reading results off.\<close>

definition subsampled_shapes :: "error + (real tensor \<times> 'm tensor) \<Rightarrow> error + (nat list \<times> nat list)" where
  "subsampled_shapes r = (case r of Inl e \<Rightarrow> Inl e | Inr (y, m) \<Rightarrow> Inr (shape y, shape m))"

definition pair_shapes :: "error + ((real tensor \<times> real tensor) \<times> 'g) \<Rightarrow> error + (nat list \<times> nat list)" where
  "pair_shapes r = (case r of Inl e \<Rightarrow> Inl e | Inr ((a, b), g) \<Rightarrow> Inr (shape a, shape b))"

section \<open>Construction and dispatch of WhaleAttention\<close>

lemma floor_div_exact: "h \<noteq> 0 \<Longrightarrow> ((e div h) * h \<noteq> e) = (\<not> h dvd (e::int))"
  by (metis dvd_div_mult_self dvd_triv_right)

lemma init_never_flash:
  "snd (WhaleAttention_init K cfg) = Inr self \<Longrightarrow> \<not> att_use_flash_attn self"
  by (auto simp: WhaleAttention_init_def Let_def has_flash_attn_def split: if_splits)

lemma init_fields:
  "snd (WhaleAttention_init K cfg) = Inr self \<Longrightarrow>
     att_embed_dim self = hidden_size cfg \<and> att_num_heads self = num_attention_heads cfg \<and>
     att_head_dim self = hidden_size cfg div num_attention_heads cfg \<and>
     att_head_dim self * att_num_heads self = att_embed_dim self"
  by (auto simp: WhaleAttention_init_def Let_def split: if_splits)

text \<open>
  Claim C5, as amended. For every configuration whose number of heads is not zero, the
  constructor raises the error "embed_dim must be divisible by num_heads" if and only if
  the number of heads does not divide the embedding dimension; and every module that was
  constructed has \<open>head_dim * num_heads = embed_dim\<close>.
\<close>

theorem init_divisible:
  assumes "num_attention_heads cfg \<noteq> 0"
  shows "(snd (WhaleAttention_init K cfg) = Inl not_divisible
            \<longleftrightarrow> \<not> num_attention_heads cfg dvd hidden_size cfg)
       \<and> (\<forall>self. snd (WhaleAttention_init K cfg) = Inr self
            \<longrightarrow> att_head_dim self * att_num_heads self = att_embed_dim self
              \<and> att_embed_dim self = hidden_size cfg
              \<and> att_num_heads self = num_attention_heads cfg)"
proof -
  have "(snd (WhaleAttention_init K cfg) = Inl not_divisible)
          = (hidden_size cfg div num_attention_heads cfg * num_attention_heads cfg \<noteq> hidden_size cfg)"
    using assms by (simp add: WhaleAttention_init_def Let_def not_divisible_def)
  then have "(snd (WhaleAttention_init K cfg) = Inl not_divisible)
          = (\<not> num_attention_heads cfg dvd hidden_size cfg)"
    using assms by (simp add: floor_div_exact)
  moreover have "\<forall>self. snd (WhaleAttention_init K cfg) = Inr self
            \<longrightarrow> att_head_dim self * att_num_heads self = att_embed_dim self
              \<and> att_embed_dim self = hidden_size cfg
              \<and> att_num_heads self = num_attention_heads cfg"
    using init_fields[of K cfg] by blast
  ultimately show ?thesis by blast
qed

text \<open>
  The theorem at one head for dimension 2 (constructed) and at two heads for dimension 5
  (rejected).
\<close>

theorem init_divisible_witness:
  "num_attention_heads small_config \<noteq> 0
   \<and> snd (WhaleAttention_init identity_kernel small_config) \<noteq> Inl not_divisible
   \<and> (\<exists>self. snd (WhaleAttention_init identity_kernel small_config) = Inr self
        \<and> att_head_dim self * att_num_heads self = att_embed_dim self)
   \<and> num_attention_heads (small_config\<lparr>hidden_size := 5, num_attention_heads := 2\<rparr>) \<noteq> 0
   \<and> snd (WhaleAttention_init identity_kernel (small_config\<lparr>hidden_size := 5, num_attention_heads := 2\<rparr>))
        = Inl not_divisible"
proof -
  have a: "num_attention_heads small_config \<noteq> 0" by (simp add: small_config_def)
  have b: "num_attention_heads (small_config\<lparr>hidden_size := 5, num_attention_heads := 2\<rparr>) \<noteq> 0" by simp
  have c: "\<exists>self. snd (WhaleAttention_init identity_kernel small_config) = Inr self"
    by (simp add: WhaleAttention_init_def small_config_def has_flash_attn_def)
  have d: "\<not> (2::int) dvd 5" by presburger
  show ?thesis
    using init_divisible[OF a, of identity_kernel] init_divisible[OF b, of identity_kernel] a b c d
    by (auto simp: small_config_def)
qed

text \<open>
  With zero heads and dimension 5 the dimension is not divisible by the number of heads,
  and the constructor stops at the floor division, before the check, with a division by
  zero instead of the validation error.
\<close>

theorem zero_heads_counterexample:
  "\<not> num_attention_heads (small_config\<lparr>hidden_size := 5, num_attention_heads := 0\<rparr>)
       dvd hidden_size (small_config\<lparr>hidden_size := 5, num_attention_heads := 0\<rparr>)
   \<and> snd (WhaleAttention_init identity_kernel (small_config\<lparr>hidden_size := 5, num_attention_heads := 0\<rparr>))
       = Inl ZeroDivisionError"
  by (simp add: WhaleAttention_init_def small_config_def)




text \<open>
  Claim C10. The availability flag is false, so every constructed module has
  \<open>use_flash_attn\<close> false, and for every input the forward pass returns exactly what
  \<^verbatim>\<open>_naive_attn\<close> returns on it; the optimized path is never taken.
\<close>

theorem forward_is_naive_attn:
  assumes "snd (WhaleAttention_init K cfg) = Inr self"
  shows "\<not> has_flash_attn \<and> \<not> att_use_flash_attn self
       \<and> WhaleAttention_forward self x attention_mask pos_embeds g
           = naive_attn self x attention_mask pos_embeds g"
  using init_never_flash[OF assms] by (simp add: WhaleAttention_forward_def has_flash_attn_def)

theorem forward_is_naive_attn_witness:
  "\<exists>self. snd (WhaleAttention_init identity_kernel small_config) = Inr self
     \<and> WhaleAttention_forward self (features 7) (Some (mask2 7)) None ()
         = naive_attn self (features 7) (Some (mask2 7)) None ()
     \<and> WhaleAttention_forward self (features 7) (Some (mask2 7)) None () = Inr (features 7, ())"
proof -
  obtain self where s: "snd (WhaleAttention_init identity_kernel small_config) = Inr self"
    and k: "att_kernel self = identity_kernel"
    by (simp add: WhaleAttention_init_def small_config_def has_flash_attn_def)
  have "naive_attn self (features 7) (Some (mask2 7)) None () = Inr (features 7, ())"
    using k by (simp add: naive_attn_def identity_kernel_def returns_def)
  then show ?thesis
    using forward_is_naive_attn[OF s, of "features 7" "Some (mask2 7)" None "()"] s by auto
qed

section \<open>Convolutional subsampling: lengths and masks\<close>

lemma half_shift: "(k + 4) div 2 = k div 2 + (2::nat)"
  by simp

lemma quarter_shift: "(k + 4) div 4 = k div 4 + (1::nat)"
  by simp

lemma conv_out_len_twice: "7 \<le> n \<Longrightarrow> conv_out_len (conv_out_len n) = (n - 3) div 4"
proof -
  assume "7 \<le> n"
  then obtain k where n: "n = k + 7" using le_Suc_ex add.commute by metis
  have "conv_out_len n = k div 2 + 3" unfolding conv_out_len_def n by (simp add: half_shift)
  then have "conv_out_len (conv_out_len n) = k div 2 div 2 + 1" by (simp add: conv_out_len_def)
  also have "\<dots> = k div 4 + 1" by (simp add: div_mult2_eq[symmetric])
  also have "\<dots> = (n - 3) div 4" unfolding n by (simp add: quarter_shift)
  finally show ?thesis .
qed

lemma conv_out_len_long: "3 \<le> conv_out_len n \<Longrightarrow> 7 \<le> n"
  unfolding conv_out_len_def by presburger

lemma quarter_iff: "7 \<le> (n::nat) \<Longrightarrow> ((n - 3) div 4 = n div 4) = (n mod 4 = 3)"
  by presburger

lemma quarter_less: "7 \<le> (n::nat) \<Longrightarrow> n mod 4 \<noteq> 3 \<Longrightarrow> (n - 3) div 4 = n div 4 - 1"
  by presburger

lemma slice_len_2_2: "slice_len 2 2 n = (n - 1) div 2"
  unfolding slice_len_def by presburger

lemma on_ok_Inr: "(on_ok r f = Inr v) = (\<exists>a. r = Inr a \<and> f a = Inr v)"
  by (cases r) (simp_all add: on_ok_def)

lemma Conv2d_forward_rank4:
  assumes "Conv2d_forward c x = Inr y" and "shape x = [b, ch, h, w]"
  shows "shape y = [b, conv_out_channels c, conv_out_len h, conv_out_len w]
       \<and> ch = conv_in_channels c \<and> 3 \<le> h \<and> 3 \<le> w"
proof -
  have r: "length (shape x) = 4" "shape x ! 0 = b" "shape x ! 1 = ch" "shape x ! 2 = h" "shape x ! 3 = w"
    using assms(2) by simp_all
  have ok: "ch = conv_in_channels c \<and> \<not> h < 3 \<and> \<not> w < 3"
    using assms(1) unfolding Conv2d_forward_def Let_def r
    by (simp split: if_splits)
  then show ?thesis
    using assms(1) unfolding Conv2d_forward_def Let_def r by auto
qed

lemma conv_in_rank4:
  assumes "conv_in self x = Inr y" and "shape x = [b, ch, h, w]"
  shows "shape y = [b, conv_out_channels (conv2 self), conv_out_len (conv_out_len h),
                    conv_out_len (conv_out_len w)] \<and> 7 \<le> h \<and> 7 \<le> w"
proof -
  from assms(1) obtain y1 y2 where 1: "Conv2d_forward (conv1 self) x = Inr y1"
    and 2: "Conv2d_forward (conv2 self) (relu y1) = Inr y2" and 3: "y = relu y2"
    unfolding conv_in_def on_ok_Inr by auto
  from Conv2d_forward_rank4[OF 1 assms(2)]
  have s1: "shape y1 = [b, conv_out_channels (conv1 self), conv_out_len h, conv_out_len w]"
    and h3: "3 \<le> h" and w3: "3 \<le> w" by auto
  then have "shape (relu y1) = [b, conv_out_channels (conv1 self), conv_out_len h, conv_out_len w]"
    by (simp add: relu_def)
  from Conv2d_forward_rank4[OF 2 this]
  have s2: "shape y2 = [b, conv_out_channels (conv2 self), conv_out_len (conv_out_len h),
                        conv_out_len (conv_out_len w)]"
    and "3 \<le> conv_out_len h" and "3 \<le> conv_out_len w" by auto
  then have "7 \<le> h" "7 \<le> w" using conv_out_len_long[of h] conv_out_len_long[of w] by auto
  then show ?thesis using s2 3 by (simp add: relu_def)
qed

lemma subsample_mask_Some:
  assumes "subsample_mask x_mask = Inr m"
  shows "\<exists>mk. x_mask = Some mk \<and> 2 \<le> length (shape mk)
          \<and> shape m = (shape mk)[1 := ((shape mk ! 1 - 1) div 2 - 1) div 2]
          \<and> (\<forall>idx. elem m idx = elem mk (idx[1 := 4 * (idx ! 1) + 6]))"
proof -
  have twice: "(idx[1 := 2 + 2 * (idx ! 1)])[1 := 2 + 2 * (idx[1 := 2 + 2 * (idx ! 1)] ! 1)]
                = idx[1 := 4 * (idx ! 1) + 6]" for idx :: "nat list"
  proof (cases "1 < length idx")
    case True
    then have "idx[1 := 2 + 2 * (idx ! 1)] ! 1 = 2 + 2 * (idx ! 1)" by simp
    moreover have "2 + 2 * (2 + 2 * (idx ! 1)) = 4 * (idx ! 1) + 6" by simp
    ultimately show ?thesis by (simp only: list_update_overwrite)
  next
    case False
    then have "\<And>v. idx[1 := v] = idx" by (simp add: list_update_beyond)
    then show ?thesis by simp
  qed
  from assms obtain mk m1 where mk: "x_mask = Some mk"
    and m1: "slice_from_step 2 2 mk = Inr m1" and m: "slice_from_step 2 2 m1 = Inr m"
    unfolding subsample_mask_def by (cases x_mask) (auto simp: on_ok_Inr)
  from m1 have r: "2 \<le> length (shape mk)"
    and m1': "m1 = \<lparr> shape = (shape mk)[1 := (shape mk ! 1 - 1) div 2],
                     elem = (\<lambda>idx. elem mk (idx[1 := 2 + 2 * (idx ! 1)])) \<rparr>"
    by (auto simp: slice_from_step_def slice_len_2_2 split: if_splits)
  from m m1' r have "shape m = (shape mk)[1 := ((shape mk ! 1 - 1) div 2 - 1) div 2]"
    and "\<And>idx. elem m idx = elem mk ((idx[1 := 2 + 2 * (idx ! 1)])[1 := 2 + 2 * (idx[1 := 2 + 2 * (idx ! 1)] ! 1)])"
    by (auto simp: slice_from_step_def slice_len_2_2 split: if_splits)
  then show ?thesis using mk r twice by simp
qed

lemma forward_parts:
  assumes "shape x = [b, T, F]"
    and "WhaleConv2dSubsampling4_forward self x x_mask = Inr (y, m)"
  shows "7 \<le> T \<and> 7 \<le> F
       \<and> shape y = [b, conv_out_len (conv_out_len T), lin_out_features (out self)]
       \<and> subsample_mask x_mask = Inr m"
proof -
  have u: "shape (unsqueeze 1 x) = [b, 1, T, F]" using assms(1) by (simp add: unsqueeze_def)
  have ne: "shape x \<noteq> []" using assms(1) by simp
  from assms(2) obtain y0 where c: "conv_in self (unsqueeze 1 x) = Inr y0"
    and rest: "(if length (shape y0) = 4 then
           (let b = shape y0 ! 0; c = shape y0 ! 1; t = shape y0 ! 2; f = shape y0 ! 3 in
            on_ok (Linear_forward (out self) (merge_channels y0 b c t f)) (\<lambda>z.
            on_ok (subsample_mask x_mask) (\<lambda>m. Inr (z, m))))
         else Inl (ValueError ''not enough values to unpack (expected 4)'')) = Inr (y, m)"
    unfolding WhaleConv2dSubsampling4_forward_def using ne by (auto simp: on_ok_Inr)
  from conv_in_rank4[OF c u]
  have s0: "shape y0 = [b, conv_out_channels (conv2 self), conv_out_len (conv_out_len T),
                        conv_out_len (conv_out_len F)]" and T: "7 \<le> T" and F: "7 \<le> F" by auto
  from rest s0 obtain z where
    lin: "Linear_forward (out self) (merge_channels y0 b (conv_out_channels (conv2 self))
            (conv_out_len (conv_out_len T)) (conv_out_len (conv_out_len F))) = Inr z"
    and msk: "subsample_mask x_mask = Inr m" and yz: "y = z"
    by (auto simp: on_ok_Inr)
  from lin have "shape z = [b, conv_out_len (conv_out_len T), lin_out_features (out self)]"
    by (auto simp: Linear_forward_def merge_channels_def split: if_splits)
  then show ?thesis using T F msk yz by simp
qed


lemma slice_twice_len: "7 \<le> n \<Longrightarrow> ((n - 1) div 2 - 1) div 2 = (n - 3) div (4::nat)"
proof -
  assume "7 \<le> n"
  then obtain k where n: "n = k + 7" using le_Suc_ex add.commute by metis
  have a: "(k + 6) div 2 = k div 2 + 3" by simp
  have b: "(k div 2 + 2) div 2 = k div 2 div 2 + 1" by simp
  have "((n - 1) div 2 - 1) div 2 = k div 2 div 2 + 1" unfolding n by (simp add: a b)
  also have "\<dots> = k div 4 + 1" by (simp add: div_mult2_eq[symmetric])
  also have "\<dots> = (n - 3) div 4" unfolding n by (simp add: quarter_shift)
  finally show ?thesis .
qed

text \<open>
  Claim C2, as amended. For every input of shape (b, T, F) on which the forward pass
  returns, \<open>T\<close> is at least 7 and the returned features have shape
  (b, (T - 3) div 4, hidden): the time axis after the two unpadded convolutions of kernel 3
  and stride 2, \<open>((T - 1) div 2 - 1) div 2\<close>. This is \<open>T div 4\<close> exactly when
  \<open>T mod 4 = 3\<close>, and \<open>T div 4 - 1\<close> otherwise.
\<close>

theorem subsampled_time_dimension:
  assumes "shape x = [b, T, F]"
    and "WhaleConv2dSubsampling4_forward self x x_mask = Inr (y, m)"
  shows "7 \<le> T
       \<and> shape y = [b, (T - 3) div 4, lin_out_features (out self)]
       \<and> (T - 3) div 4 = conv_out_len (conv_out_len T)
       \<and> (T - 3) div 4 = ((T - 1) div 2 - 1) div 2
       \<and> ((T - 3) div 4 = T div 4) = (T mod 4 = 3)
       \<and> (if T mod 4 = 3 then shape y ! 1 = T div 4 else shape y ! 1 = T div 4 - 1)"
proof -
  from forward_parts[OF assms]
  have T: "7 \<le> T"
    and s: "shape y = [b, conv_out_len (conv_out_len T), lin_out_features (out self)]" by auto
  have c: "conv_out_len (conv_out_len T) = (T - 3) div 4" using T by (rule conv_out_len_twice)
  show ?thesis using T s c quarter_iff[OF T] quarter_less[OF T] slice_twice_len[OF T] by simp
qed

lemma small_forward_8:
  "subsampled_shapes (WhaleConv2dSubsampling4_forward small_subsampling (features 8) (Some (mask2 8)))
     = Inr ([1, 1, 2], [1, 1])"
  by (simp add: subsampled_shapes_def WhaleConv2dSubsampling4_forward_def small_subsampling_def
        features_def mask2_def unsqueeze_def conv_in_def Conv2d_forward_def relu_def on_ok_def
        Linear_forward_def merge_channels_def subsample_mask_def slice_from_step_def slice_len_def
        conv_out_len_def Let_def)

lemma subsampled_shapes_Inr:
  "subsampled_shapes r = Inr (s, t) \<Longrightarrow> \<exists>y m. r = Inr (y, m) \<and> shape y = s \<and> shape m = t"
  by (cases r) (auto simp: subsampled_shapes_def)

text \<open>The concrete subsampling module is the one the constructor returns.\<close>

lemma small_subsampling_init:
  "WhaleConv2dSubsampling4_init zero_weights small_config = Inr small_subsampling"
  by (simp add: WhaleConv2dSubsampling4_init_def small_config_def small_subsampling_def Let_def)

text \<open>The theorem at \<open>T = 7\<close>, where one output frame is returned.\<close>

theorem subsampled_time_dimension_witness:
  "shape (features 7) = [1, 7, 7]
   \<and> (\<exists>y m. WhaleConv2dSubsampling4_forward small_subsampling (features 7) (Some (mask2 7)) = Inr (y, m)
         \<and> shape y = [1, (7 - 3) div 4, 2] \<and> shape y ! 1 = 7 div 4)"
proof -
  have s: "shape (features 7) = [1, 7, 7]" by (simp add: features_def)
  have "subsampled_shapes (WhaleConv2dSubsampling4_forward small_subsampling (features 7) (Some (mask2 7)))
     = Inr ([1, 1, 2], [1, 1])"
    by (simp add: subsampled_shapes_def WhaleConv2dSubsampling4_forward_def small_subsampling_def
        features_def mask2_def unsqueeze_def conv_in_def Conv2d_forward_def relu_def on_ok_def
        Linear_forward_def merge_channels_def subsample_mask_def slice_from_step_def slice_len_def
        conv_out_len_def Let_def)
  then obtain y m where
    r: "WhaleConv2dSubsampling4_forward small_subsampling (features 7) (Some (mask2 7)) = Inr (y, m)"
    using subsampled_shapes_Inr by blast
  from subsampled_time_dimension[OF s r] have "shape y = [1, (7 - 3) div 4, 2] \<and> shape y ! 1 = 7 div 4"
    by (simp add: small_subsampling_def)
  with s r show ?thesis by blast
qed

text \<open>
  At \<open>T = 8\<close> the returned features have one frame, and \<open>8 div 4\<close> is two.
\<close>

theorem subsampled_time_dimension_counterexample:
  "shape (features 8) = [1, 8, 7]
   \<and> subsampled_shapes (WhaleConv2dSubsampling4_forward small_subsampling (features 8) (Some (mask2 8)))
       = Inr ([1, 1, 2], [1, 1])
   \<and> (8::nat) div 4 = 2"
  using small_forward_8 by (simp add: features_def)

text \<open>
  A mask of shape (b, T), the shape \<^verbatim>\<open>WhaleAttention\<close> unsqueezes to (b, 1, 1, T): the two
  slices act on the time axis, entry \<open>j\<close> of the result is entry \<open>4 j + 6\<close> of the
  input, and the length is that of the subsampled features.
\<close>

lemma mask_rank2_aligned:
  assumes "shape x = [b, T, F]" and "shape mk = [b, T]"
    and "WhaleConv2dSubsampling4_forward self x (Some mk) = Inr (y, m)"
  shows "shape m = [b, (T - 3) div 4] \<and> shape m ! 1 = shape y ! 1
       \<and> elem m [i, j] = elem mk [i, 4 * j + 6]"
proof -
  from forward_parts[OF assms(1,3)] have T: "7 \<le> T"
    and y: "shape y = [b, conv_out_len (conv_out_len T), lin_out_features (out self)]"
    and sm: "subsample_mask (Some mk) = Inr m" by auto
  from subsample_mask_Some[OF sm]
  have "shape m = (shape mk)[1 := ((shape mk ! 1 - 1) div 2 - 1) div 2]"
    and e: "\<And>idx. elem m idx = elem mk (idx[1 := 4 * (idx ! 1) + 6])" by auto
  then have "shape m = [b, (T - 3) div 4]" using assms(2) slice_twice_len[OF T] by simp
  moreover have "elem m [i, j] = elem mk [i, 4 * j + 6]" using e[of "[i, j]"] by simp
  ultimately show ?thesis using y conv_out_len_twice[OF T] by simp
qed

text \<open>
  A mask of the documented shape (b, 1, T): both subscripts \<^verbatim>\<open>[:, 2::2]\<close> slice axis 1,
  of length 1, and nothing of it is left; the time axis is not touched.
\<close>

lemma mask_rank3_emptied:
  assumes "shape mk = [b, 1, T]"
    and "WhaleConv2dSubsampling4_forward self x (Some mk) = Inr (y, m)" and "shape x = [b, T, F]"
  shows "shape m = [b, 0, T]"
proof -
  from forward_parts[OF assms(3,2)] have sm: "subsample_mask (Some mk) = Inr m" by auto
  from subsample_mask_Some[OF sm] show ?thesis using assms(1) by simp
qed

text \<open>
  Claim C3, at a mask of shape (1, 1, 8) with features of shape (1, 8, 7): the returned
  features have shape (1, 1, 2) and the returned mask has shape (1, 0, 8), where the claim
  and the docstring of the forward pass state (batch, 1, time').
\<close>

theorem documented_mask_emptied:
  "shape (mask3 8) = [1, 1, 8]
   \<and> subsampled_shapes (WhaleConv2dSubsampling4_forward small_subsampling (features 8) (Some (mask3 8)))
       = Inr ([1, 1, 2], [1, 0, 8])"
  by (simp add: subsampled_shapes_def WhaleConv2dSubsampling4_forward_def small_subsampling_def
        features_def mask3_def unsqueeze_def conv_in_def Conv2d_forward_def relu_def on_ok_def
        Linear_forward_def merge_channels_def subsample_mask_def slice_from_step_def slice_len_def
        conv_out_len_def Let_def)

section \<open>Positional encodings: the table, the slices and the bounds\<close>

lemma div_term_powr:
  "real pos * div_term d i = real pos / 10000 powr (real (2 * i) / real_of_int d)"
  by (simp add: div_term_def powr_def exp_minus divide_inverse algebra_simps)

lemma pe_table_even:
  "elem (pe_table n d) [0, pos, 2 * i] = sin (real pos / 10000 powr (real (2 * i) / real_of_int d))"
  by (simp add: pe_table_def div_term_powr)

lemma pe_table_odd:
  "elem (pe_table n d) [0, pos, 2 * i + 1] = cos (real pos / 10000 powr (real (2 * i) / real_of_int d))"
  by (simp add: pe_table_def div_term_powr)

lemma init_pe_fields:
  assumes "WhalePositionalEncoding_init nn_Dropout cfg = Inr self"
  shows "pe self = pe_table (max_position_embeddings cfg) (hidden_size cfg)
       \<and> xscale self = sqrt (real_of_int (hidden_size cfg))
       \<and> pe_dropout self = nn_Dropout (dropout cfg)
       \<and> max_len self = max_position_embeddings cfg
       \<and> 0 \<le> max_position_embeddings cfg \<and> 0 < hidden_size cfg
       \<and> (even (hidden_size cfg) \<or> hidden_size cfg = 1)"
  using assms by (auto simp: WhalePositionalEncoding_init_def Let_def split: if_splits)

text \<open>
  Claim C6. The table a successful construction stores is \<open>pe_table\<close>, a function of the
  maximal length and the hidden size alone; it has shape (1, max_len, d), and its entries at
  position \<open>pos\<close> are \<open>sin (pos / 10000\<^sup>2\<^sup>i\<^sup>/\<^sup>d)\<close> in column \<open>2 i\<close> and
  \<open>cos (pos / 10000\<^sup>2\<^sup>i\<^sup>/\<^sup>d)\<close> in column \<open>2 i + 1\<close>. The equations hold at every index,
  so at every entry of the table (\<open>pos < max_len\<close>, column below \<open>d\<close>). Entries are real
  numbers: the rounding of 32-bit floating point is not part of the statement.
\<close>

theorem positional_table_values:
  assumes "WhalePositionalEncoding_init nn_Dropout cfg = Inr self"
  shows "pe self = pe_table (max_position_embeddings cfg) (hidden_size cfg)
       \<and> shape (pe self) = [1, nat (max_position_embeddings cfg), nat (hidden_size cfg)]
       \<and> elem (pe self) [0, pos, 2 * i]
           = sin (real pos / 10000 powr (real (2 * i) / real_of_int (hidden_size cfg)))
       \<and> elem (pe self) [0, pos, 2 * i + 1]
           = cos (real pos / 10000 powr (real (2 * i) / real_of_int (hidden_size cfg)))"
  using init_pe_fields[OF assms] pe_table_even pe_table_odd by (simp add: pe_table_def)

theorem positional_table_values_witness:
  "\<exists>self. WhalePositionalEncoding_init eval_dropout small_config = Inr self
     \<and> shape (pe self) = [1, 10, 2]
     \<and> elem (pe self) [0, 3, 2 * 0] = sin (real 3 / 10000 powr (real (2 * 0) / real_of_int 2))
     \<and> elem (pe self) [0, 3, 2 * 0 + 1] = cos (real 3 / 10000 powr (real (2 * 0) / real_of_int 2))"
proof -
  obtain self where s: "WhalePositionalEncoding_init eval_dropout small_config = Inr self"
    by (simp add: WhalePositionalEncoding_init_def small_config_def)
  from positional_table_values[OF s, of 3 0] s show ?thesis
    by (auto simp: small_config_def)
qed


lemma small_rel_pe_init:
  "RelPositionalEncoding_init eval_dropout small_config = Inr small_rel_pe"
  by (simp add: RelPositionalEncoding_init_def WhalePositionalEncoding_init_def small_config_def
        small_rel_pe_def on_ok_def WhalePositionalEncoding.defs RelPositionalEncoding.defs)




text \<open>
  The bounds assertion: the absolute forward pass and the streaming accessor raise it exactly
  when \<open>offset + size\<close> reaches \<open>max_len\<close>; the relative forward pass never raises it.
\<close>

lemma rel_forward_never_asserts:
  "RelPositionalEncoding_forward self x offset g \<noteq> Inl AssertionError"
  by (simp add: RelPositionalEncoding_forward_def Let_def scale_tensor_def and_then_def
        drop_call_def returns_def raise_def split_beta)

lemma position_encoding_bounds:
  "(position_encoding self offset sz g = Inl AssertionError) = (max_len self \<le> offset + sz)"
  "offset + sz < max_len self \<Longrightarrow> \<exists>r. position_encoding self offset sz g = Inr r"
  by (auto simp: position_encoding_def drop_call_def raise_def)

lemma forward_bounds:
  assumes "2 \<le> length (shape x)"
  shows "(WhalePositionalEncoding_forward self x offset g = Inl AssertionError)
           = (max_len self \<le> offset + int (shape x ! 1))"
  using assms
  by (auto simp: WhalePositionalEncoding_forward_def Let_def and_then_def lift_def tensor_add_def
        drop_call_def returns_def raise_def split_beta split: option.splits sum.splits)

text \<open>
  Claim C4, at a table of 4 positions and an input of 5 frames with offset 0, where
  \<open>offset + size \<ge> max_len\<close>: the relative forward pass returns, with a positional slice
  of 4 frames for hidden states of 5 frames.
\<close>

theorem rel_forward_beyond_table:
  "pair_shapes
     (case RelPositionalEncoding_init eval_dropout (small_config\<lparr>max_position_embeddings := 4\<rparr>) of
        Inl e \<Rightarrow> Inl e
      | Inr self \<Rightarrow> RelPositionalEncoding_forward self (hidden_input 5) 0 ())
     = Inr ([1, 5, 2], [1, 4, 2])"
  by (simp add: pair_shapes_def RelPositionalEncoding_init_def WhalePositionalEncoding_init_def
        small_config_def on_ok_def WhalePositionalEncoding.defs RelPositionalEncoding_forward_def
        hidden_input_def scale_tensor_def Let_def and_then_def drop_call_def returns_def
        eval_dropout_def py_slice1_def py_bound_def pe_table_def)

section \<open>WhaleAudioModel: input validation and the pooled output\<close>

lemma and_then_Inr: "(and_then m f g = Inr r) = (\<exists>a g1. m g = Inr (a, g1) \<and> f a g1 = Inr r)"
  by (cases "m g") (auto simp: and_then_def)

lemma encoder_dict:
  assumes "WhaleAudioEncoder_forward E h m p ohs (Some rd) g = Inr (BaseModelOutput a b, g')"
  shows "rd"
proof (rule ccontr)
  assume "\<not> rd"
  with assms show False
    by (auto simp: WhaleAudioEncoder_forward_def Let_def and_then_Inr returns_def split_beta)
qed

lemma encode_dict:
  assumes "encode self i m ohs rda e g = Inr (BaseModelOutput a b, g')"
  shows "(case rda of Some b \<Rightarrow> b | None \<Rightarrow> use_return_dict (config self))"
proof -
  from assms obtain hidden mask pos g1 where
    "WhaleAudioEncoder_forward (encoder self) hidden mask (Some pos)
        (Some (case ohs of Some b \<Rightarrow> b | None \<Rightarrow> output_hidden_states (config self)))
        (Some (case rda of Some b \<Rightarrow> b | None \<Rightarrow> use_return_dict (config self))) g1
       = Inr (BaseModelOutput a b, g')"
    by (auto simp: encode_def Let_def and_then_Inr raise_def split: if_splits option.splits)
  then show ?thesis by (rule encoder_dict)
qed

text \<open>
  Claim C8. Whenever the forward pass returns, the encoder returned a
  \<^verbatim>\<open>BaseModelOutput\<close>, the result is a \<^verbatim>\<open>BaseModelOutputWithPooling\<close> whose last hidden
  state is the encoder's, unchanged, and whose pooled output is the slice
  \<^verbatim>\<open>last_hidden_state[:, 0, :]\<close>: entry \<open>(i, k)\<close> of the pooled output is entry
  \<open>(i, 0, k)\<close> of the last hidden state.
\<close>

theorem pooled_is_first_position:
  assumes "WhaleAudioModel_forward self input_features attention_mask ohs rda pixel_embeds g = Inr (res, g')"
  shows "\<exists>h states.
           encode self input_features attention_mask ohs rda pixel_embeds g
             = Inr (BaseModelOutput h states, g')
         \<and> res = BaseModelOutputWithPooling h (pooler_output res) states None
         \<and> last_hidden_state res = h
         \<and> select_first h = Inr (pooler_output res)
         \<and> shape (pooler_output res) = take 1 (shape h) @ drop 2 (shape h)
         \<and> (\<forall>i k. elem (pooler_output res) [i, k] = elem h [i, 0, k])"
proof -
  from assms obtain eo g1 where e: "encode self input_features attention_mask ohs rda pixel_embeds g = Inr (eo, g1)"
    and k: "(case eo of
            EncTuple h states \<Rightarrow> raise (AttributeError ''last_hidden_state'')
          | BaseModelOutput h states \<Rightarrow>
              and_then (lift (select_first h)) (\<lambda>pooled_output.
                if \<not> (case rda of Some b \<Rightarrow> b | None \<Rightarrow> use_return_dict (config self))
                then returns (ModelTuple h pooled_output states)
                else returns (BaseModelOutputWithPooling h pooled_output states None))) g1
           = Inr (res, g')"
    by (auto simp: WhaleAudioModel_forward_def Let_def and_then_Inr)
  from k obtain h states where eo: "eo = BaseModelOutput h states"
    by (cases eo) (auto simp: raise_def)
  from k eo obtain pooled where sf: "select_first h = Inr pooled"
    and r1: "(if \<not> (case rda of Some b \<Rightarrow> b | None \<Rightarrow> use_return_dict (config self))
                then returns (ModelTuple h pooled states)
                else returns (BaseModelOutputWithPooling h pooled states None)) g1 = Inr (res, g')"
    by (cases "select_first h") (auto simp: and_then_Inr lift_def)
  from r1 have g1: "g1 = g'" by (auto simp: returns_def split: if_splits)
  from r1 g1 have r: "(if \<not> (case rda of Some b \<Rightarrow> b | None \<Rightarrow> use_return_dict (config self))
                then returns (ModelTuple h pooled states)
                else returns (BaseModelOutputWithPooling h pooled states None)) g' = Inr (res, g')"
    by simp
  from e eo have e': "encode self input_features attention_mask ohs rda pixel_embeds g
      = Inr (BaseModelOutput h states, g1)" by simp
  have "(case rda of Some b \<Rightarrow> b | None \<Rightarrow> use_return_dict (config self))"
    by (rule encode_dict[OF e'])
  with r have res: "res = BaseModelOutputWithPooling h pooled states None"
    by (simp add: returns_def)
  from sf have "shape pooled = take 1 (shape h) @ drop 2 (shape h)"
    and "\<And>i k. elem pooled [i, k] = elem h [i, 0, k]"
    by (auto simp: select_first_def split: if_splits)
  with e eo g1 res sf show ?thesis by simp
qed

text \<open>A call that returns: raw features of shape (1, 7, 7) with a mask of shape (1, 7).\<close>

lemma small_model_runs:
  "\<exists>res. WhaleAudioModel_forward small_model (Some (features 7)) (Some (mask2 7)) None None None ()
          = Inr (res, ())"
  by (simp add: WhaleAudioModel_forward_def encode_def route_inputs_def small_model_def
        small_config_def WhaleConv2dSubsampling4_forward_def small_subsampling_def
        features_def mask2_def unsqueeze_def conv_in_def Conv2d_forward_def relu_def on_ok_def
        Linear_forward_def merge_channels_def subsample_mask_def slice_from_step_def slice_len_def
        conv_out_len_def Let_def and_then_def lift_def returns_def raise_def
        WhaleAudioEmbeddings_forward_def identity_layer_def RelPositionalEncoding_forward_def
        small_rel_pe_def scale_tensor_def drop_call_def eval_dropout_def
        WhaleAudioEncoder_forward_def select_first_def py_slice1_def)


theorem pooled_is_first_position_witness:
  "\<exists>res. WhaleAudioModel_forward small_model (Some (features 7)) (Some (mask2 7)) None None None ()
           = Inr (res, ())
     \<and> select_first (last_hidden_state res) = Inr (pooler_output res)
     \<and> elem (pooler_output res) [0, 1] = elem (last_hidden_state res) [0, 0, 1]"
proof -
  from small_model_runs obtain res where
    r: "WhaleAudioModel_forward small_model (Some (features 7)) (Some (mask2 7)) None None None ()
          = Inr (res, ())" by blast
  from pooled_is_first_position[OF r] r show ?thesis by auto
qed

text \<open>
  Claim C1, as amended. The forward pass requires at least one of the raw features and the
  precomputed embeddings: with both unset it raises the error "You have to specify
  pixel_values or pixel_embeds"; with the embeddings unset and raw features whose rank is
  not 3 it raises the error "wrong pixel_values size". When the embeddings are supplied,
  with or without raw features, neither of the two errors is raised: the embeddings take
  precedence and the raw features are not looked at.
\<close>

theorem forward_validates_inputs:
  "(input_features = None \<and> pixel_embeds = None \<longrightarrow>
      WhaleAudioModel_forward self input_features attention_mask ohs rda pixel_embeds g
        = Inl specify_inputs)
   \<and> (\<forall>x. input_features = Some x \<and> pixel_embeds = None \<and> length (shape x) \<noteq> 3 \<longrightarrow>
      WhaleAudioModel_forward self input_features attention_mask ohs rda pixel_embeds g
        = Inl wrong_size)
   \<and> (pixel_embeds \<noteq> None \<longrightarrow>
      WhaleAudioModel_forward self input_features attention_mask ohs rda pixel_embeds g
        \<noteq> Inl specify_inputs
      \<and> WhaleAudioModel_forward self input_features attention_mask ohs rda pixel_embeds g
        \<noteq> Inl wrong_size)"
  by (auto simp: WhaleAudioModel_forward_def encode_def route_inputs_def Let_def and_then_def
        raise_def returns_def specify_inputs_def wrong_size_def)

theorem forward_validates_inputs_witness:
  "WhaleAudioModel_forward small_model None (Some (mask2 7)) None None None () = Inl specify_inputs
   \<and> length (shape flat_features) \<noteq> 3
   \<and> WhaleAudioModel_forward small_model (Some flat_features) (Some (mask2 7)) None None None ()
       = Inl wrong_size
   \<and> WhaleAudioModel_forward small_model (Some (features 7)) (Some (mask2 7)) None None
        (Some (hidden_input 3)) () \<noteq> Inl specify_inputs
   \<and> WhaleAudioModel_forward small_model (Some (features 7)) (Some (mask2 7)) None None
        (Some (hidden_input 3)) () \<noteq> Inl wrong_size"
proof -
  have l: "length (shape flat_features) \<noteq> 3" by (simp add: flat_features_def)
  show ?thesis
    using l
      forward_validates_inputs[of None None small_model "Some (mask2 7)" None None "()"]
      forward_validates_inputs[of "Some flat_features" None small_model "Some (mask2 7)" None None "()"]
      forward_validates_inputs[of "Some (features 7)" "Some (hidden_input 3)" small_model
         "Some (mask2 7)" None None "()"]
    by simp
qed

text \<open>
  Both inputs supplied: the call does not end in an invalid-argument error. It ends where
  the call with the embeddings alone ends, at the read of \<^verbatim>\<open>pos_embeds\<close>, which only the
  raw-feature branch assigns.
\<close>

theorem both_supplied_counterexample:
  "WhaleAudioModel_forward small_model (Some (features 7)) (Some (mask2 7)) None None
     (Some (hidden_input 3)) () = Inl (UnboundLocalError ''pos_embeds'')
   \<and> WhaleAudioModel_forward small_model None (Some (mask2 7)) None None
     (Some (hidden_input 3)) () = Inl (UnboundLocalError ''pos_embeds'')"
  by (simp add: WhaleAudioModel_forward_def encode_def route_inputs_def Let_def and_then_def
        raise_def returns_def)

end
